theory Spec2Isabelle
  imports Complex_Main
begin

section \<open>Python values that reach the bot\<close>

text \<open>
  Every value the bot inspects is the result of \<^verbatim>\<open>response.json()\<close>, that is, of
  Python's \<^verbatim>\<open>json.loads\<close>: \<^verbatim>\<open>None\<close>, a bool, an int, a float, a str, a list or a dict
  with string keys. A finite float is the rational number it denotes (Python compares an
  int with a float by their exact values); \<^verbatim>\<open>json.loads\<close> also accepts \<^verbatim>\<open>Infinity\<close>,
  \<^verbatim>\<open>-Infinity\<close> and \<^verbatim>\<open>NaN\<close>. A dict is the list of its items.
\<close>

datatype pyfloat = Finite rat | PosInf | NegInf | NaN

datatype json =
    JNull
  | JBool bool
  | JInt int
  | JFloat pyfloat
  | JStr string
  | JArr "json list"
  | JObj "(string \<times> json) list"

text \<open>
  The exceptions of the model, all of them subclasses of \<^verbatim>\<open>Exception\<close>: what
  \<^verbatim>\<open>session.get\<close>/\<^verbatim>\<open>session.post\<close> raise on a transport error, what
  \<^verbatim>\<open>response.raise_for_status()\<close> raises, what \<^verbatim>\<open>response.json()\<close> raises on a body it
  cannot decode, and the two exceptions of Python's own operators. Exceptions outside
  \<^verbatim>\<open>Exception\<close> (\<^verbatim>\<open>KeyboardInterrupt\<close>, task cancellation) are not modelled.
\<close>

datatype exn =
    ClientConnectionError
  | ClientResponseError
  | JSONDecodeError
  | KeyError string
  | TypeError

section \<open>Effects: a trace of events, and exceptions as values\<close>

datatype request = GET string | POST string json

datatype level = INFO | ERROR

text \<open>A log message is kept as the pieces of its f-string.\<close>

datatype frag = Lit string | Val json | Exc exn

datatype event = Sent request | Logged level "frag list" | Slept nat

type_synonym 'a io = "(exn + 'a) \<times> event list"

definition io_return :: "'a \<Rightarrow> 'a io" where
  "io_return x = (Inr x, [])"

text \<open>An operator that can raise but has no effect, used as a step of the program.\<close>

definition io_lift :: "exn + 'a \<Rightarrow> 'a io" where
  "io_lift r = (r, [])"

definition io_bind :: "'a io \<Rightarrow> ('a \<Rightarrow> 'b io) \<Rightarrow> 'b io" where
  "io_bind m f =
     (case m of
        (Inl e, t) \<Rightarrow> (Inl e, t)
      | (Inr x, t) \<Rightarrow> (case f x of (r, t') \<Rightarrow> (r, t @ t')))"

text \<open>\<^verbatim>\<open>try: m  except Exception as e: h e\<close>\<close>

definition try_except :: "'a io \<Rightarrow> (exn \<Rightarrow> 'a io) \<Rightarrow> 'a io" where
  "try_except m h =
     (case m of
        (Inl e, t) \<Rightarrow> (case h e of (r, t') \<Rightarrow> (r, t @ t'))
      | (Inr x, t) \<Rightarrow> (Inr x, t))"

definition logger_info :: "frag list \<Rightarrow> unit io" where
  "logger_info msg = (Inr (), [Logged INFO msg])"

definition logger_error :: "frag list \<Rightarrow> unit io" where
  "logger_error msg = (Inr (), [Logged ERROR msg])"

definition sleep :: "nat \<Rightarrow> unit io" where
  "sleep n = (Inr (), [Slept n])"

section \<open>Python operators on the fetched values\<close>

text \<open>Truthiness, as \<^verbatim>\<open>if x\<close> and \<^verbatim>\<open>x and y\<close> test it.\<close>

fun truthy :: "json \<Rightarrow> bool" where
  "truthy JNull = False"
| "truthy (JBool b) = b"
| "truthy (JInt i) = (i \<noteq> 0)"
| "truthy (JFloat (Finite q)) = (q \<noteq> 0)"
| "truthy (JFloat PosInf) = True"
| "truthy (JFloat NegInf) = True"
| "truthy (JFloat NaN) = True"
| "truthy (JStr s) = (s \<noteq> [])"
| "truthy (JArr xs) = (xs \<noteq> [])"
| "truthy (JObj kvs) = (kvs \<noteq> [])"

text \<open>\<^verbatim>\<open>data[key]\<close> with a string key: only a dict can be subscripted with a string.\<close>

fun subscript :: "json \<Rightarrow> string \<Rightarrow> exn + json" where
  "subscript (JObj kvs) key =
     (case map_of kvs key of None \<Rightarrow> Inl (KeyError key) | Some v \<Rightarrow> Inr v)"
| "subscript _ key = Inl TypeError"

text \<open>
  \<^verbatim>\<open>x >= n\<close> for an int \<open>n\<close>: defined on numbers (\<^verbatim>\<open>bool\<close> is a subclass of \<^verbatim>\<open>int\<close>),
  a \<^verbatim>\<open>TypeError\<close> on everything else.
\<close>

fun ge_int :: "json \<Rightarrow> int \<Rightarrow> exn + bool" where
  "ge_int (JInt i) n = Inr (n \<le> i)"
| "ge_int (JBool b) n = Inr (n \<le> (if b then 1 else 0))"
| "ge_int (JFloat (Finite q)) n = Inr (of_int n \<le> q)"
| "ge_int (JFloat PosInf) n = Inr True"
| "ge_int (JFloat NegInf) n = Inr False"
| "ge_int (JFloat NaN) n = Inr False"
| "ge_int _ n = Inl TypeError"

text \<open>
  The condition \<^verbatim>\<open>liquidity and available_balance >= n\<close> of an \<^verbatim>\<open>if\<close>: the comparison
  is evaluated only when \<^verbatim>\<open>liquidity\<close> is truthy.
\<close>

definition and_ge :: "json \<Rightarrow> json \<Rightarrow> int \<Rightarrow> exn + bool" where
  "and_ge liquidity available_balance n =
     (if truthy liquidity then ge_int available_balance n else Inr False)"

section \<open>The remote service\<close>

text \<open>
  What one HTTP exchange ends in: \<^verbatim>\<open>session.get\<close>/\<^verbatim>\<open>session.post\<close> raises, or
  \<^verbatim>\<open>response.raise_for_status()\<close> raises, or \<^verbatim>\<open>response.json()\<close> raises, or the body
  parses to a value.
  The service is a function from the request to the outcome: the requests of one cycle
  are pairwise different.
\<close>

datatype reply = Unreachable | Refused | Garbled | Parsed json

type_synonym server = "request \<Rightarrow> reply"

text \<open>
  The three lines every operation shares:
  \<^verbatim>\<open>async with session.get(url) as response: response.raise_for_status();
  data = await response.json()\<close>
\<close>

definition fetch_json :: "server \<Rightarrow> request \<Rightarrow> json io" where
  "fetch_json srv req =
     (case srv req of
        Unreachable \<Rightarrow> (Inl ClientConnectionError, [Sent req])
      | Refused \<Rightarrow> (Inl ClientResponseError, [Sent req])
      | Garbled \<Rightarrow> (Inl JSONDecodeError, [Sent req])
      | Parsed data \<Rightarrow> (Inr data, [Sent req]))"

text \<open>
  Where the outcome comes from. Either no response arrives, or one arrives with its
  status code and its body, \<open>None\<close> standing for a body that \<^verbatim>\<open>response.json()\<close> cannot
  decode. \<^verbatim>\<open>response.raise_for_status()\<close> is the only test of the status code in the
  program; it is the HTTP library's and raises for the status codes from 400 up, so a
  response with a lower status code, 2xx or not, goes on to \<^verbatim>\<open>response.json()\<close>.
\<close>

datatype http_response = NoResponse | Response nat "json option"

definition raise_for_status :: "nat \<Rightarrow> exn + unit" where
  "raise_for_status status = (if 400 \<le> status then Inl ClientResponseError else Inr ())"

definition outcome :: "http_response \<Rightarrow> reply" where
  "outcome r =
     (case r of
        NoResponse \<Rightarrow> Unreachable
      | Response status body \<Rightarrow>
          (case raise_for_status status of
             Inl _ \<Rightarrow> Refused
           | Inr _ \<Rightarrow> (case body of None \<Rightarrow> Garbled | Some data \<Rightarrow> Parsed data)))"

definition served_by :: "(request \<Rightarrow> http_response) \<Rightarrow> server" where
  "served_by http req = outcome (http req)"

section \<open>The program\<close>

definition private_key :: string where
  "private_key = ''your_private_key_here''"

definition amount_to_borrow :: int where
  "amount_to_borrow = 1000"

definition collateral_for_borrow :: int where
  "collateral_for_borrow = 2000"

definition asset_to_borrow :: string where
  "asset_to_borrow = ''USDT''"

definition loan_duration :: int where
  "loan_duration = 30"

definition amount_to_deposit :: int where
  "amount_to_deposit = 5000"

definition asset_to_deposit :: string where
  "asset_to_deposit = ''DAI''"

definition borrow_url :: string where
  "borrow_url = ''https://avax-explorer.co/api/aave/borrow''"

definition deposit_url :: string where
  "deposit_url = ''https://avax-explorer.co/api/aave/deposit''"

definition liquidity_url :: string where
  "liquidity_url = ''https://avax-explorer.co/api/aave/liquidity''"

definition balance_url :: string where
  "balance_url = ''https://avax-explorer.co/api/aave/balance''"

text \<open>The body of the \<^verbatim>\<open>try\<close> of \<^verbatim>\<open>check_balance\<close>.\<close>

definition check_balance_try :: "server \<Rightarrow> string \<Rightarrow> json io" where
  "check_balance_try srv asset =
     io_bind (fetch_json srv (GET (balance_url @ ''/'' @ asset))) (\<lambda>data.
     io_bind (io_lift (subscript data ''balance'')) (\<lambda>shown.
     io_bind (logger_info [Lit ''Available '', Lit asset, Lit '' balance: '', Val shown]) (\<lambda>_.
     io_lift (subscript data ''balance''))))"

definition check_balance :: "server \<Rightarrow> string \<Rightarrow> json io" where
  "check_balance srv asset =
     try_except (check_balance_try srv asset)
       (\<lambda>e. io_bind (logger_error [Lit ''Error checking balance: '', Exc e]) (\<lambda>_.
            io_return (JInt 0)))"

definition borrow_payload :: "string \<Rightarrow> int \<Rightarrow> int \<Rightarrow> string \<Rightarrow> int \<Rightarrow> json" where
  "borrow_payload key amount collateral asset duration =
     JObj [(''private_key'', JStr key), (''amount'', JInt amount),
           (''collateral'', JInt collateral), (''asset'', JStr asset),
           (''duration'', JInt duration)]"

definition borrow_assets_try :: "server \<Rightarrow> json \<Rightarrow> unit io" where
  "borrow_assets_try srv payload =
     io_bind (fetch_json srv (POST borrow_url payload)) (\<lambda>data.
     io_bind (io_lift (subscript data ''status'')) (\<lambda>status.
       if status = JStr ''success''
       then io_bind (io_lift (subscript data ''txid'')) (\<lambda>txid.
              logger_info [Lit ''Borrowing successful! TXID: '', Val txid])
       else io_bind (io_lift (subscript data ''message'')) (\<lambda>message.
              logger_error [Lit ''Error borrowing assets: '', Val message])))"

definition borrow_assets :: "server \<Rightarrow> string \<Rightarrow> int \<Rightarrow> int \<Rightarrow> string \<Rightarrow> int \<Rightarrow> unit io" where
  "borrow_assets srv key amount collateral asset duration =
     try_except (borrow_assets_try srv (borrow_payload key amount collateral asset duration))
       (\<lambda>e. logger_error [Lit ''Error borrowing request: '', Exc e])"

definition deposit_payload :: "string \<Rightarrow> int \<Rightarrow> string \<Rightarrow> json" where
  "deposit_payload key amount asset =
     JObj [(''private_key'', JStr key), (''amount'', JInt amount), (''asset'', JStr asset)]"

definition deposit_assets_try :: "server \<Rightarrow> json \<Rightarrow> unit io" where
  "deposit_assets_try srv payload =
     io_bind (fetch_json srv (POST deposit_url payload)) (\<lambda>data.
     io_bind (io_lift (subscript data ''status'')) (\<lambda>status.
       if status = JStr ''success''
       then io_bind (io_lift (subscript data ''txid'')) (\<lambda>txid.
              logger_info [Lit ''Deposit successful! TXID: '', Val txid])
       else io_bind (io_lift (subscript data ''message'')) (\<lambda>message.
              logger_error [Lit ''Error depositing assets: '', Val message])))"

definition deposit_assets :: "server \<Rightarrow> string \<Rightarrow> int \<Rightarrow> string \<Rightarrow> unit io" where
  "deposit_assets srv key amount asset =
     try_except (deposit_assets_try srv (deposit_payload key amount asset))
       (\<lambda>e. logger_error [Lit ''Error with deposit request: '', Exc e])"

definition get_liquidity_try :: "server \<Rightarrow> json io" where
  "get_liquidity_try srv =
     io_bind (fetch_json srv (GET liquidity_url)) (\<lambda>data.
     io_bind (logger_info [Lit ''Current liquidity data:'']) (\<lambda>_.
     io_bind (logger_info [Val data]) (\<lambda>_.
     io_return data)))"

definition get_liquidity :: "server \<Rightarrow> json io" where
  "get_liquidity srv =
     try_except (get_liquidity_try srv)
       (\<lambda>e. io_bind (logger_error [Lit ''Error fetching liquidity data: '', Exc e]) (\<lambda>_.
            io_return JNull))"

text \<open>The two \<^verbatim>\<open>if\<close> statements of \<^verbatim>\<open>make_decision\<close>, one after the other.\<close>

definition deposit_step :: "server \<Rightarrow> json \<Rightarrow> json \<Rightarrow> unit io" where
  "deposit_step srv liquidity available_balance =
     io_bind (io_lift (and_ge liquidity available_balance amount_to_deposit)) (\<lambda>c.
       if c
       then io_bind (logger_info [Lit ''Conditions are good to deposit.'']) (\<lambda>_.
              deposit_assets srv private_key amount_to_deposit asset_to_deposit)
       else logger_info [Lit ''Not enough balance or liquidity to deposit.''])"

definition borrow_step :: "server \<Rightarrow> json \<Rightarrow> json \<Rightarrow> unit io" where
  "borrow_step srv liquidity available_balance =
     io_bind (io_lift (and_ge liquidity available_balance collateral_for_borrow)) (\<lambda>c.
       if c
       then io_bind (logger_info [Lit ''Conditions are good to borrow.'']) (\<lambda>_.
              borrow_assets srv private_key amount_to_borrow collateral_for_borrow
                asset_to_borrow loan_duration)
       else logger_info [Lit ''Not enough collateral or liquidity to borrow.''])"

definition make_decision :: "server \<Rightarrow> unit io" where
  "make_decision srv =
     io_bind (get_liquidity srv) (\<lambda>liquidity.
     io_bind (check_balance srv asset_to_deposit) (\<lambda>available_balance.
     io_bind (deposit_step srv liquidity available_balance) (\<lambda>_.
     borrow_step srv liquidity available_balance)))"

text \<open>
  \<^verbatim>\<open>while True: await make_decision(); await asyncio.sleep(60)\<close>, run for at most
  \<open>fuel\<close> iterations; \<open>srvs k\<close> is the service as it answers during iteration \<open>k\<close>.
  The loop has no normal exit: the result is \<open>None\<close> when the fuel is used up with the
  loop still running, and \<open>Some e\<close> when the exception \<open>e\<close> left the loop.
\<close>

fun polling_loop :: "nat \<Rightarrow> (nat \<Rightarrow> server) \<Rightarrow> nat \<Rightarrow> exn option \<times> event list" where
  "polling_loop 0 srvs k = (None, [])"
| "polling_loop (Suc fuel) srvs k =
     (case io_bind (make_decision (srvs k)) (\<lambda>_. sleep 60) of
        (Inl e, t) \<Rightarrow> (Some e, t)
      | (Inr _, t) \<Rightarrow> (case polling_loop fuel srvs (Suc k) of (r, t') \<Rightarrow> (r, t @ t')))"

definition aave_crypto_bot :: "nat \<Rightarrow> (nat \<Rightarrow> server) \<Rightarrow> exn option \<times> event list" where
  "aave_crypto_bot fuel srvs =
     (case polling_loop fuel srvs 0 of
        (r, t) \<Rightarrow> (r, Logged INFO [Lit ''Starting the Aave crypto bot on Avalanche...''] # t))"

section \<open>Observations on a trace\<close>

text \<open>The requests of a trace, in order, and among them the outbound actions.\<close>

fun requests :: "event list \<Rightarrow> request list" where
  "requests [] = []"
| "requests (Sent r # t) = r # requests t"
| "requests (_ # t) = requests t"

fun is_post :: "request \<Rightarrow> bool" where
  "is_post (POST _ _) = True"
| "is_post (GET _) = False"

definition actions :: "event list \<Rightarrow> request list" where
  "actions t = filter is_post (requests t)"

fun is_error_log :: "event \<Rightarrow> bool" where
  "is_error_log (Logged ERROR _) = True"
| "is_error_log _ = False"

definition error_logs :: "event list \<Rightarrow> event list" where
  "error_logs t = filter is_error_log t"

text \<open>The requests of a trace that went to one endpoint.\<close>

fun sent_to :: "string \<Rightarrow> request \<Rightarrow> bool" where
  "sent_to url (GET u) = (u = url)"
| "sent_to url (POST u _) = (u = url)"

fun is_get :: "request \<Rightarrow> bool" where
  "is_get (GET _) = True"
| "is_get (POST _ _) = False"

definition deposit_request :: request where
  "deposit_request =
     POST deposit_url (deposit_payload private_key amount_to_deposit asset_to_deposit)"

definition borrow_request :: request where
  "borrow_request =
     POST borrow_url (borrow_payload private_key amount_to_borrow collateral_for_borrow
       asset_to_borrow loan_duration)"

text \<open>
  A service for examples: it answers the liquidity request with \<open>l\<close>, every other \<^verbatim>\<open>GET\<close>
  with the body \<^verbatim>\<open>{"balance": b}\<close>, and every \<^verbatim>\<open>POST\<close> with a success receipt.
\<close>

definition example_server :: "json \<Rightarrow> json \<Rightarrow> server" where
  "example_server l b req =
     (case req of
        GET url \<Rightarrow> if url = liquidity_url then Parsed l else Parsed (JObj [(''balance'', b)])
      | POST url payload \<Rightarrow> Parsed (JObj [(''status'', JStr ''success''), (''txid'', JStr ''0xabc'')]))"

section \<open>Properties of the operators and of the four operations\<close>

lemma requests_append: "requests (a @ b) = requests a @ requests b"
  by (induction a rule: requests.induct) simp_all

lemma actions_append: "actions (a @ b) = actions a @ actions b"
  by (simp add: actions_def requests_append)

lemma ge_int_values: "ge_int b n = Inr True \<or> ge_int b n = Inr False \<or> ge_int b n = Inl TypeError"
  by (cases "(b, n)" rule: ge_int.cases) simp_all

lemma ge_int_raises: "ge_int b n = Inl e \<Longrightarrow> ge_int b m = Inl e"
  by (cases "(b, n)" rule: ge_int.cases) simp_all

lemma ge_int_mono:
  assumes "ge_int b n = Inr True" and "m \<le> n"
  shows "ge_int b m = Inr True"
proof (cases "(b, n)" rule: ge_int.cases)
  case (3 q n')
  with assms have "(of_int n :: rat) \<le> q" by simp
  moreover from assms have "(of_int m :: rat) \<le> of_int n" by simp
  ultimately have "(of_int m :: rat) \<le> q" by (rule order_trans [rotated])
  with 3 show ?thesis by simp
qed (use assms in auto)

lemmas io_defs = io_bind_def try_except_def fetch_json_def logger_info_def logger_error_def
  io_return_def io_lift_def

lemma get_liquidity_total:
  "\<exists>l t. get_liquidity srv = (Inr l, t) \<and> requests t = [GET liquidity_url]"
  by (cases "srv (GET liquidity_url)")
     (simp_all add: get_liquidity_def get_liquidity_try_def io_defs)

lemma check_balance_total:
  "\<exists>b t. check_balance srv a = (Inr b, t) \<and> requests t = [GET (balance_url @ ''/'' @ a)]"
proof (cases "srv (GET (balance_url @ ''/'' @ a))")
  case (Parsed d)
  then have p: "srv (GET (balance_url @ CHR ''/'' # a)) = Parsed d" by simp
  show ?thesis
    by (cases "subscript d ''balance''")
       (simp_all add: p check_balance_def check_balance_try_def io_defs)
qed (simp_all add: check_balance_def check_balance_try_def io_defs)

lemma deposit_assets_total:
  "\<exists>t. deposit_assets srv k a s = (Inr (), t) \<and>
       requests t = [POST deposit_url (deposit_payload k a s)]"
proof (cases "srv (POST deposit_url (deposit_payload k a s))")
  case (Parsed d)
  show ?thesis
    by (cases "subscript d ''status''"; cases "subscript d ''txid''";
        cases "subscript d ''message''")
       (simp_all add: Parsed deposit_assets_def deposit_assets_try_def io_defs)
qed (simp_all add: deposit_assets_def deposit_assets_try_def io_defs)

lemma borrow_assets_total:
  "\<exists>t. borrow_assets srv k a c s d = (Inr (), t) \<and>
       requests t = [POST borrow_url (borrow_payload k a c s d)]"
proof (cases "srv (POST borrow_url (borrow_payload k a c s d))")
  case (Parsed x)
  show ?thesis
    by (cases "subscript x ''status''"; cases "subscript x ''txid''";
        cases "subscript x ''message''")
       (simp_all add: Parsed borrow_assets_def borrow_assets_try_def io_defs)
qed (simp_all add: borrow_assets_def borrow_assets_try_def io_defs)

section \<open>The two gates and one cycle\<close>

lemma deposit_step_eq:
  "\<exists>t. deposit_step srv l b =
         (if truthy l \<and> ge_int b amount_to_deposit = Inl TypeError
          then Inl TypeError else Inr (), t) \<and>
       requests t =
         (if truthy l \<and> ge_int b amount_to_deposit = Inr True then [deposit_request] else [])"
proof -
  obtain t where t:
    "deposit_assets srv private_key amount_to_deposit asset_to_deposit = (Inr (), t)"
    "requests t = [deposit_request]"
    using deposit_assets_total unfolding deposit_request_def by blast
  from ge_int_values [of b amount_to_deposit] show ?thesis
    by (auto simp add: deposit_step_def and_ge_def t io_bind_def logger_info_def io_lift_def)
qed

lemma borrow_step_eq:
  "\<exists>t. borrow_step srv l b =
         (if truthy l \<and> ge_int b collateral_for_borrow = Inl TypeError
          then Inl TypeError else Inr (), t) \<and>
       requests t =
         (if truthy l \<and> ge_int b collateral_for_borrow = Inr True then [borrow_request] else [])"
proof -
  obtain t where t:
    "borrow_assets srv private_key amount_to_borrow collateral_for_borrow
       asset_to_borrow loan_duration = (Inr (), t)"
    "requests t = [borrow_request]"
    using borrow_assets_total unfolding borrow_request_def by blast
  from ge_int_values [of b collateral_for_borrow] show ?thesis
    by (auto simp add: borrow_step_def and_ge_def t io_bind_def logger_info_def io_lift_def)
qed

text \<open>
  One cycle, from the two fetched values: it raises exactly when the liquidity is truthy
  and the balance is not a number, and its requests are the two fetches followed by the
  actions whose gate is open.
\<close>

lemma make_decision_eq:
  assumes l: "fst (get_liquidity srv) = Inr l"
    and b: "fst (check_balance srv asset_to_deposit) = Inr b"
  shows "fst (make_decision srv) =
           (if truthy l \<and> ge_int b amount_to_deposit = Inl TypeError
            then Inl TypeError else Inr ())"
    and "requests (snd (make_decision srv)) =
           [GET liquidity_url, GET (balance_url @ ''/'' @ asset_to_deposit)] @
           (if truthy l \<and> ge_int b amount_to_deposit = Inr True
            then [deposit_request] else []) @
           (if truthy l \<and> ge_int b collateral_for_borrow = Inr True
            then [borrow_request] else [])"
proof -
  obtain t1 where t1: "get_liquidity srv = (Inr l, t1)" "requests t1 = [GET liquidity_url]"
    using get_liquidity_total [of srv] l by auto
  obtain t2 where t2: "check_balance srv asset_to_deposit = (Inr b, t2)"
    "requests t2 = [GET (balance_url @ ''/'' @ asset_to_deposit)]"
    using check_balance_total [of srv asset_to_deposit] b by auto
  obtain t3 where t3: "deposit_step srv l b =
      (if truthy l \<and> ge_int b amount_to_deposit = Inl TypeError
       then Inl TypeError else Inr (), t3)"
    "requests t3 = (if truthy l \<and> ge_int b amount_to_deposit = Inr True
       then [deposit_request] else [])"
    using deposit_step_eq by blast
  obtain t4 where t4: "borrow_step srv l b =
      (if truthy l \<and> ge_int b collateral_for_borrow = Inl TypeError
       then Inl TypeError else Inr (), t4)"
    "requests t4 = (if truthy l \<and> ge_int b collateral_for_borrow = Inr True
       then [borrow_request] else [])"
    using borrow_step_eq by blast
  have same: "ge_int b collateral_for_borrow = Inl TypeError \<longleftrightarrow>
      ge_int b amount_to_deposit = Inl TypeError"
    using ge_int_raises by blast
  show "fst (make_decision srv) =
           (if truthy l \<and> ge_int b amount_to_deposit = Inl TypeError
            then Inl TypeError else Inr ())"
    by (simp add: make_decision_def io_bind_def t1(1) t2(1) t3(1) t4(1) same)
  show "requests (snd (make_decision srv)) =
           [GET liquidity_url, GET (balance_url @ ''/'' @ asset_to_deposit)] @
           (if truthy l \<and> ge_int b amount_to_deposit = Inr True
            then [deposit_request] else []) @
           (if truthy l \<and> ge_int b collateral_for_borrow = Inr True
            then [borrow_request] else [])"
  proof (cases "truthy l \<and> ge_int b amount_to_deposit = Inl TypeError")
    case True
    with same have "ge_int b collateral_for_borrow = Inl TypeError" by simp
    with True show ?thesis
      using t1(2) t2(2) t3(2)
      by (simp add: make_decision_def io_bind_def t1(1) t2(1) t3(1) requests_append)
  next
    case False
    then show ?thesis
      using t1(2) t2(2) t3(2) t4(2)
      by (auto simp add: make_decision_def io_bind_def t1(1) t2(1) t3(1) t4(1) requests_append)
  qed
qed

lemma urls_distinct:
  "deposit_url \<noteq> borrow_url" "borrow_url \<noteq> deposit_url"
  "deposit_url \<noteq> liquidity_url" "liquidity_url \<noteq> deposit_url"
  "borrow_url \<noteq> liquidity_url" "liquidity_url \<noteq> borrow_url"
  "balance_url @ CHR ''/'' # a \<noteq> liquidity_url"
  "balance_url @ CHR ''/'' # a \<noteq> deposit_url"
  "balance_url @ CHR ''/'' # a \<noteq> borrow_url"
  by (simp_all add: deposit_url_def borrow_url_def liquidity_url_def balance_url_def)

section \<open>The example service\<close>

lemma example_server_liquidity: "fst (get_liquidity (example_server l b)) = Inr l"
  by (simp add: get_liquidity_def get_liquidity_try_def example_server_def io_defs)

lemma example_server_balance: "fst (check_balance (example_server l b) a) = Inr b"
  by (simp add: check_balance_def check_balance_try_def example_server_def io_defs
      urls_distinct)

lemma make_decision_actions:
  assumes "fst (get_liquidity srv) = Inr l"
    and "fst (check_balance srv asset_to_deposit) = Inr b"
  shows "actions (snd (make_decision srv)) =
           (if truthy l \<and> ge_int b amount_to_deposit = Inr True
            then [deposit_request] else []) @
           (if truthy l \<and> ge_int b collateral_for_borrow = Inr True
            then [borrow_request] else [])"
  by (simp add: actions_def make_decision_eq(2) [OF assms] deposit_request_def
      borrow_request_def)

lemma make_decision_deposits:
  assumes "fst (get_liquidity srv) = Inr l"
    and "fst (check_balance srv asset_to_deposit) = Inr b"
  shows "filter (sent_to deposit_url) (requests (snd (make_decision srv))) =
           (if truthy l \<and> ge_int b amount_to_deposit = Inr True
            then [deposit_request] else [])"
  by (simp add: make_decision_eq(2) [OF assms] deposit_request_def borrow_request_def
      urls_distinct)

lemma make_decision_borrows:
  assumes "fst (get_liquidity srv) = Inr l"
    and "fst (check_balance srv asset_to_deposit) = Inr b"
  shows "filter (sent_to borrow_url) (requests (snd (make_decision srv))) =
           (if truthy l \<and> ge_int b collateral_for_borrow = Inr True
            then [borrow_request] else [])"
  by (simp add: make_decision_eq(2) [OF assms] deposit_request_def borrow_request_def
      urls_distinct)

lemma make_decision_gets:
  "filter is_get (requests (snd (make_decision srv))) =
     [GET liquidity_url, GET (balance_url @ ''/'' @ asset_to_deposit)]"
proof -
  obtain l where l: "fst (get_liquidity srv) = Inr l"
    using get_liquidity_total [of srv] by auto
  obtain b where b: "fst (check_balance srv asset_to_deposit) = Inr b"
    using check_balance_total [of srv asset_to_deposit] by auto
  show ?thesis
    by (simp add: make_decision_eq(2) [OF l b] deposit_request_def borrow_request_def)
qed

text \<open>The two actions, with the configured constants written out.\<close>

lemma request_values:
  "deposit_request = POST ''https://avax-explorer.co/api/aave/deposit''
     (JObj [(''private_key'', JStr ''your_private_key_here''), (''amount'', JInt 5000),
            (''asset'', JStr ''DAI'')])"
  "borrow_request = POST ''https://avax-explorer.co/api/aave/borrow''
     (JObj [(''private_key'', JStr ''your_private_key_here''), (''amount'', JInt 1000),
            (''collateral'', JInt 2000), (''asset'', JStr ''USDT''),
            (''duration'', JInt 30)])"
  by (simp_all add: deposit_request_def borrow_request_def deposit_payload_def
      borrow_payload_def deposit_url_def borrow_url_def private_key_def amount_to_deposit_def
      asset_to_deposit_def amount_to_borrow_def collateral_for_borrow_def asset_to_borrow_def
      loan_duration_def)

section \<open>The deposit gate\<close>

text \<open>
  Claim C1, as the program has it. In a cycle of \<open>make_decision\<close> let \<open>l\<close> be the fetched
  liquidity and \<open>b\<close> the balance fetched for the deposit asset. If \<open>l\<close> is truthy and
  \<open>b >= amount_to_deposit\<close> holds, exactly one request goes to the deposit endpoint, with
  the payload made of the configured key, amount and asset. If \<open>b >= amount_to_deposit\<close>
  is false, no request goes to the deposit endpoint, whatever the liquidity is.
  The gate tests the truthiness of the liquidity: being different from \<^verbatim>\<open>None\<close> is not
  enough, as the counterexample below shows.
\<close>

theorem deposit_gate:
  assumes "fst (get_liquidity srv) = Inr l"
    and "fst (check_balance srv asset_to_deposit) = Inr b"
  shows "(truthy l \<and> ge_int b amount_to_deposit = Inr True \<longrightarrow>
            filter (sent_to deposit_url) (requests (snd (make_decision srv))) =
              [POST deposit_url
                 (deposit_payload private_key amount_to_deposit asset_to_deposit)]) \<and>
         (ge_int b amount_to_deposit = Inr False \<longrightarrow>
            filter (sent_to deposit_url) (requests (snd (make_decision srv))) = [])"
  by (simp add: make_decision_deposits [OF assms] deposit_request_def)

text \<open>With the liquidity \<^verbatim>\<open>{"available": 1}\<close>: a balance of 5000 deposits, 4999 does not.\<close>

theorem deposit_gate_witness:
  "(fst (get_liquidity (example_server (JObj [(''available'', JInt 1)]) (JInt 5000))) =
      Inr (JObj [(''available'', JInt 1)]) \<and>
    fst (check_balance (example_server (JObj [(''available'', JInt 1)]) (JInt 5000))
      asset_to_deposit) = Inr (JInt 5000) \<and>
    truthy (JObj [(''available'', JInt 1)]) \<and>
    ge_int (JInt 5000) amount_to_deposit = Inr True \<and>
    filter (sent_to deposit_url) (requests (snd (make_decision
      (example_server (JObj [(''available'', JInt 1)]) (JInt 5000))))) =
      [POST deposit_url (deposit_payload private_key amount_to_deposit asset_to_deposit)]) \<and>
   (fst (get_liquidity (example_server (JObj [(''available'', JInt 1)]) (JInt 4999))) =
      Inr (JObj [(''available'', JInt 1)]) \<and>
    fst (check_balance (example_server (JObj [(''available'', JInt 1)]) (JInt 4999))
      asset_to_deposit) = Inr (JInt 4999) \<and>
    ge_int (JInt 4999) amount_to_deposit = Inr False \<and>
    filter (sent_to deposit_url) (requests (snd (make_decision
      (example_server (JObj [(''available'', JInt 1)]) (JInt 4999))))) = [])"
  using deposit_gate [OF example_server_liquidity example_server_balance,
      of "JObj [(''available'', JInt 1)]" "JInt 5000"]
    deposit_gate [OF example_server_liquidity example_server_balance,
      of "JObj [(''available'', JInt 1)]" "JInt 4999"]
  by (simp add: example_server_liquidity example_server_balance amount_to_deposit_def)

text \<open>
  The liquidity \<^verbatim>\<open>{}\<close> is not \<^verbatim>\<open>None\<close> and the balance 5000 reaches the deposit amount,
  yet the cycle sends nothing to the deposit endpoint.
\<close>

theorem deposit_gate_nonnull_counterexample:
  "fst (get_liquidity (example_server (JObj []) (JInt 5000))) = Inr (JObj []) \<and>
   JObj [] \<noteq> JNull \<and>
   fst (check_balance (example_server (JObj []) (JInt 5000)) asset_to_deposit) =
     Inr (JInt 5000) \<and>
   ge_int (JInt 5000) amount_to_deposit = Inr True \<and>
   filter (sent_to deposit_url)
     (requests (snd (make_decision (example_server (JObj []) (JInt 5000))))) = []"
  using make_decision_deposits [OF example_server_liquidity example_server_balance,
      of "JObj []" "JInt 5000"]
  by (simp add: example_server_liquidity example_server_balance amount_to_deposit_def)

section \<open>The borrow gate\<close>

text \<open>
  Claim C2, as the program has it. In a cycle of \<open>make_decision\<close> let \<open>l\<close> be the fetched
  liquidity and \<open>b\<close> the balance fetched for the deposit asset. If \<open>l\<close> is truthy and
  \<open>b >= collateral_for_borrow\<close> holds, exactly one request goes to the borrow endpoint,
  with the payload made of the configured key, amount, collateral, asset and duration.
  The only values fetched in the cycle are the liquidity and the balance of the deposit
  asset: no other balance is ever requested.
  As for the deposit, the gate tests the truthiness of the liquidity, not that it differs
  from \<^verbatim>\<open>None\<close>.
\<close>

theorem borrow_gate:
  assumes "fst (get_liquidity srv) = Inr l"
    and "fst (check_balance srv asset_to_deposit) = Inr b"
  shows "(truthy l \<and> ge_int b collateral_for_borrow = Inr True \<longrightarrow>
            filter (sent_to borrow_url) (requests (snd (make_decision srv))) =
              [POST borrow_url
                 (borrow_payload private_key amount_to_borrow collateral_for_borrow
                    asset_to_borrow loan_duration)]) \<and>
         filter is_get (requests (snd (make_decision srv))) =
           [GET liquidity_url, GET (balance_url @ ''/'' @ asset_to_deposit)]"
  by (simp add: make_decision_borrows [OF assms] make_decision_gets borrow_request_def)

text \<open>With the liquidity \<^verbatim>\<open>{"available": 1}\<close> and the balance 2000 the borrow is issued.\<close>

theorem borrow_gate_witness:
  "fst (get_liquidity (example_server (JObj [(''available'', JInt 1)]) (JInt 2000))) =
      Inr (JObj [(''available'', JInt 1)]) \<and>
   fst (check_balance (example_server (JObj [(''available'', JInt 1)]) (JInt 2000))
      asset_to_deposit) = Inr (JInt 2000) \<and>
   truthy (JObj [(''available'', JInt 1)]) \<and>
   ge_int (JInt 2000) collateral_for_borrow = Inr True \<and>
   filter (sent_to borrow_url) (requests (snd (make_decision
      (example_server (JObj [(''available'', JInt 1)]) (JInt 2000))))) =
      [POST borrow_url (borrow_payload private_key amount_to_borrow collateral_for_borrow
         asset_to_borrow loan_duration)] \<and>
   filter is_get (requests (snd (make_decision
      (example_server (JObj [(''available'', JInt 1)]) (JInt 2000))))) =
      [GET liquidity_url, GET (balance_url @ ''/'' @ asset_to_deposit)]"
  using borrow_gate [OF example_server_liquidity example_server_balance,
      of "JObj [(''available'', JInt 1)]" "JInt 2000"]
  by (simp add: example_server_liquidity example_server_balance collateral_for_borrow_def)

text \<open>
  The liquidity \<^verbatim>\<open>[]\<close> is not \<^verbatim>\<open>None\<close> and the balance 2000 reaches the collateral, yet
  the cycle sends nothing to the borrow endpoint.
\<close>

theorem borrow_gate_nonnull_counterexample:
  "fst (get_liquidity (example_server (JArr []) (JInt 2000))) = Inr (JArr []) \<and>
   JArr [] \<noteq> JNull \<and>
   fst (check_balance (example_server (JArr []) (JInt 2000)) asset_to_deposit) =
     Inr (JInt 2000) \<and>
   ge_int (JInt 2000) collateral_for_borrow = Inr True \<and>
   filter (sent_to borrow_url)
     (requests (snd (make_decision (example_server (JArr []) (JInt 2000))))) = []"
  using make_decision_borrows [OF example_server_liquidity example_server_balance,
      of "JArr []" "JInt 2000"]
  by (simp add: example_server_liquidity example_server_balance collateral_for_borrow_def)

section \<open>The two gates together\<close>

lemma requests_distinct: "deposit_request \<noteq> borrow_request"
  by (simp add: deposit_request_def borrow_request_def urls_distinct)

lemma make_decision_at_most_two: "length (actions (snd (make_decision srv))) \<le> 2"
proof -
  obtain l where l: "fst (get_liquidity srv) = Inr l"
    using get_liquidity_total [of srv] by auto
  obtain b where b: "fst (check_balance srv asset_to_deposit) = Inr b"
    using check_balance_total [of srv asset_to_deposit] by auto
  show ?thesis
    by (simp add: make_decision_actions [OF l b])
qed

lemma example_server_actions:
  "actions (snd (make_decision (example_server l b))) =
     (if truthy l \<and> ge_int b amount_to_deposit = Inr True then [deposit_request] else []) @
     (if truthy l \<and> ge_int b collateral_for_borrow = Inr True then [borrow_request] else [])"
  by (rule make_decision_actions [OF example_server_liquidity example_server_balance])

text \<open>
  Claim C3, as the program has it. The two gates are two separate \<^verbatim>\<open>if\<close> statements:
  with \<open>l\<close> the fetched liquidity and \<open>b\<close> the fetched balance, the deposit is issued
  exactly when its own condition (\<open>l\<close> truthy and \<open>b >= amount_to_deposit\<close>) holds, the
  borrow exactly when its own condition (\<open>l\<close> truthy and \<open>b >= collateral_for_borrow\<close>)
  holds, and a cycle in which \<open>l\<close> is truthy and \<open>b\<close> meets both thresholds issues the
  deposit and then the borrow.
  A cycle issues at most two actions, and there are cycles that issue none, one and two.
  Both gates ask for a truthy liquidity: a liquidity that is present but falsy opens
  neither, whatever the balance, as the counterexample below shows.
\<close>

theorem gates_independent:
  "(fst (get_liquidity srv) = Inr l \<and> fst (check_balance srv asset_to_deposit) = Inr b \<longrightarrow>
      (deposit_request \<in> set (actions (snd (make_decision srv))) \<longleftrightarrow>
         truthy l \<and> ge_int b amount_to_deposit = Inr True) \<and>
      (borrow_request \<in> set (actions (snd (make_decision srv))) \<longleftrightarrow>
         truthy l \<and> ge_int b collateral_for_borrow = Inr True) \<and>
      (truthy l \<and> ge_int b amount_to_deposit = Inr True \<and>
         ge_int b collateral_for_borrow = Inr True \<longrightarrow>
         actions (snd (make_decision srv)) = [deposit_request, borrow_request])) \<and>
   length (actions (snd (make_decision srv))) \<le> 2 \<and>
   (\<exists>s. length (actions (snd (make_decision s))) = 0) \<and>
   (\<exists>s. length (actions (snd (make_decision s))) = 1) \<and>
   (\<exists>s. length (actions (snd (make_decision s))) = 2)"
proof -
  have zero: "length (actions (snd (make_decision (example_server (JBool True) (JInt 0))))) = 0"
    by (simp add: example_server_actions amount_to_deposit_def collateral_for_borrow_def)
  have one: "length (actions (snd (make_decision (example_server (JBool True) (JInt 3000))))) = 1"
    by (simp add: example_server_actions amount_to_deposit_def collateral_for_borrow_def)
  have two: "length (actions (snd (make_decision (example_server (JBool True) (JInt 5000))))) = 2"
    by (simp add: example_server_actions amount_to_deposit_def collateral_for_borrow_def)
  have gates: "fst (get_liquidity srv) = Inr l \<and> fst (check_balance srv asset_to_deposit) = Inr b \<longrightarrow>
      (deposit_request \<in> set (actions (snd (make_decision srv))) \<longleftrightarrow>
         truthy l \<and> ge_int b amount_to_deposit = Inr True) \<and>
      (borrow_request \<in> set (actions (snd (make_decision srv))) \<longleftrightarrow>
         truthy l \<and> ge_int b collateral_for_borrow = Inr True) \<and>
      (truthy l \<and> ge_int b amount_to_deposit = Inr True \<and>
         ge_int b collateral_for_borrow = Inr True \<longrightarrow>
         actions (snd (make_decision srv)) = [deposit_request, borrow_request])"
    using requests_distinct by (auto simp add: make_decision_actions)
  from zero one two gates make_decision_at_most_two show ?thesis
    by blast
qed

text \<open>The liquidity \<^verbatim>\<open>true\<close> with the balance 5000 opens both gates.\<close>

theorem gates_independent_witness:
  "fst (get_liquidity (example_server (JBool True) (JInt 5000))) = Inr (JBool True) \<and>
   fst (check_balance (example_server (JBool True) (JInt 5000)) asset_to_deposit) =
     Inr (JInt 5000) \<and>
   truthy (JBool True) \<and>
   ge_int (JInt 5000) amount_to_deposit = Inr True \<and>
   ge_int (JInt 5000) collateral_for_borrow = Inr True \<and>
   actions (snd (make_decision (example_server (JBool True) (JInt 5000)))) =
     [deposit_request, borrow_request]"
  using gates_independent [of "example_server (JBool True) (JInt 5000)" "JBool True" "JInt 5000"]
  by (simp add: example_server_liquidity example_server_balance amount_to_deposit_def
      collateral_for_borrow_def)

text \<open>
  The liquidity \<^verbatim>\<open>{}\<close> is present (it is not \<^verbatim>\<open>None\<close>) and the balance 5000 meets both
  thresholds, but \<^verbatim>\<open>{}\<close> is falsy and the cycle issues no action.
\<close>

theorem gates_nonnull_liquidity_counterexample:
  "fst (get_liquidity (example_server (JObj []) (JInt 5000))) = Inr (JObj []) \<and>
   JObj [] \<noteq> JNull \<and>
   fst (check_balance (example_server (JObj []) (JInt 5000)) asset_to_deposit) =
     Inr (JInt 5000) \<and>
   ge_int (JInt 5000) amount_to_deposit = Inr True \<and>
   ge_int (JInt 5000) collateral_for_borrow = Inr True \<and>
   actions (snd (make_decision (example_server (JObj []) (JInt 5000)))) = []"
  by (simp add: example_server_liquidity example_server_balance example_server_actions
      amount_to_deposit_def collateral_for_borrow_def)

section \<open>A deposit is followed by a borrow\<close>

text \<open>
  Claim C10. The collateral for a borrow (2000) is at most the deposit amount (5000), so a
  cycle of \<open>make_decision\<close> that issues the deposit issues exactly two actions: the deposit
  first, the borrow second.
\<close>

theorem deposit_implies_borrow:
  assumes "deposit_request \<in> set (actions (snd (make_decision srv)))"
  shows "actions (snd (make_decision srv)) = [deposit_request, borrow_request] \<and>
         collateral_for_borrow \<le> amount_to_deposit"
proof -
  obtain l where l: "fst (get_liquidity srv) = Inr l"
    using get_liquidity_total [of srv] by auto
  obtain b where b: "fst (check_balance srv asset_to_deposit) = Inr b"
    using check_balance_total [of srv asset_to_deposit] by auto
  have le: "collateral_for_borrow \<le> amount_to_deposit"
    by (simp add: collateral_for_borrow_def amount_to_deposit_def)
  from assms have dep: "truthy l \<and> ge_int b amount_to_deposit = Inr True"
    using requests_distinct by (auto simp add: make_decision_actions [OF l b] split: if_splits)
  then have "ge_int b collateral_for_borrow = Inr True"
    using ge_int_mono le by blast
  with dep le show ?thesis
    by (simp add: make_decision_actions [OF l b])
qed

text \<open>The liquidity \<^verbatim>\<open>"ok"\<close> with the float balance 5000.5.\<close>

theorem deposit_implies_borrow_witness:
  "deposit_request \<in> set (actions (snd (make_decision
      (example_server (JStr ''ok'') (JFloat (Finite 5000.5)))))) \<and>
   actions (snd (make_decision (example_server (JStr ''ok'') (JFloat (Finite 5000.5))))) =
     [deposit_request, borrow_request]"
proof -
  have h: "deposit_request \<in> set (actions (snd (make_decision
      (example_server (JStr ''ok'') (JFloat (Finite 5000.5))))))"
    by (simp add: example_server_actions amount_to_deposit_def collateral_for_borrow_def)
  from deposit_implies_borrow [OF h] h show ?thesis by simp
qed

section \<open>Failed fetches\<close>

text \<open>\<^verbatim>\<open>data[key]\<close> raises exactly when \<open>data\<close> is not a dict with the field \<open>key\<close>.\<close>

lemma subscript_raises_iff:
  "(\<exists>e. subscript d key = Inl e) \<longleftrightarrow> (\<forall>kvs. d = JObj kvs \<longrightarrow> key \<notin> fst ` set kvs)"
  by (cases d) (auto simp add: map_of_eq_None_iff [symmetric] split: option.splits)

lemma check_balance_failure:
  assumes "srv (GET (balance_url @ ''/'' @ asset)) = Unreachable \<or>
           srv (GET (balance_url @ ''/'' @ asset)) = Refused \<or>
           srv (GET (balance_url @ ''/'' @ asset)) = Garbled \<or>
           (\<exists>d e. srv (GET (balance_url @ ''/'' @ asset)) = Parsed d \<and>
                  subscript d ''balance'' = Inl e)"
  shows "fst (check_balance srv asset) = Inr (JInt 0)"
  using assms by (auto simp add: check_balance_def check_balance_try_def io_defs)

lemma get_liquidity_failure:
  assumes "srv (GET liquidity_url) = Unreachable \<or> srv (GET liquidity_url) = Refused \<or>
           srv (GET liquidity_url) = Garbled"
  shows "fst (get_liquidity srv) = Inr JNull"
  using assms by (auto simp add: get_liquidity_def get_liquidity_try_def io_defs)

text \<open>A cycle in which both conditions are false takes both \<^verbatim>\<open>else\<close> branches.\<close>

lemma make_decision_closed:
  assumes l: "fst (get_liquidity srv) = Inr l"
    and b: "fst (check_balance srv asset_to_deposit) = Inr b"
    and d: "and_ge l b amount_to_deposit = Inr False"
    and c: "and_ge l b collateral_for_borrow = Inr False"
  shows "make_decision srv =
           (Inr (),
            snd (get_liquidity srv) @ snd (check_balance srv asset_to_deposit) @
            [Logged INFO [Lit ''Not enough balance or liquidity to deposit.''],
             Logged INFO [Lit ''Not enough collateral or liquidity to borrow.'']])"
proof -
  obtain t1 where t1: "get_liquidity srv = (Inr l, t1)"
    using l by (cases "get_liquidity srv") simp
  obtain t2 where t2: "check_balance srv asset_to_deposit = (Inr b, t2)"
    using b by (cases "check_balance srv asset_to_deposit") simp
  show ?thesis
    by (simp add: make_decision_def deposit_step_def borrow_step_def t1 t2 d c io_bind_def
        io_lift_def logger_info_def)
qed

lemma make_decision_falsy:
  assumes l: "fst (get_liquidity srv) = Inr l" and f: "\<not> truthy l"
  shows "fst (make_decision srv) = Inr ()"
    and "actions (snd (make_decision srv)) = []"
    and "Logged INFO [Lit ''Not enough balance or liquidity to deposit.''] \<in>
           set (snd (make_decision srv))"
    and "Logged INFO [Lit ''Not enough collateral or liquidity to borrow.''] \<in>
           set (snd (make_decision srv))"
proof -
  obtain b where b: "fst (check_balance srv asset_to_deposit) = Inr b"
    using check_balance_total [of srv asset_to_deposit] by auto
  from f have g: "and_ge l b amount_to_deposit = Inr False"
    "and_ge l b collateral_for_borrow = Inr False"
    by (simp_all add: and_ge_def)
  show "fst (make_decision srv) = Inr ()"
    by (simp add: make_decision_closed [OF l b g])
  show "actions (snd (make_decision srv)) = []"
    using f by (simp add: make_decision_actions [OF l b])
  show "Logged INFO [Lit ''Not enough balance or liquidity to deposit.''] \<in>
           set (snd (make_decision srv))"
    by (simp add: make_decision_closed [OF l b g])
  show "Logged INFO [Lit ''Not enough collateral or liquidity to borrow.''] \<in>
           set (snd (make_decision srv))"
    by (simp add: make_decision_closed [OF l b g])
qed

section \<open>A failed balance fetch\<close>

text \<open>
  Claim C4, as the program has it. Whenever the balance fetch fails, \<open>check_balance\<close>
  returns normally (\<open>Inr\<close>) the value 0, a failure being: no response arrives (transport
  error), the response has a status code of 400 or above (\<^verbatim>\<open>raise_for_status\<close> raises),
  its body cannot be decoded, or the decoded body has no field \<^verbatim>\<open>balance\<close>.
  This is also what \<open>check_balance\<close> returns after a successful fetch of the body
  \<^verbatim>\<open>{"balance": 0}\<close>, so the caller, who sees only the returned value, cannot tell the two
  apart.
  A status code outside 2xx is a failure only from 400 up, as the counterexample below
  shows.
\<close>

theorem check_balance_failure_returns_zero:
  assumes "http (GET (balance_url @ ''/'' @ asset)) = NoResponse \<or>
           (\<exists>status body. http (GET (balance_url @ ''/'' @ asset)) = Response status body \<and>
              (400 \<le> status \<or> body = None \<or>
               (\<exists>d e. body = Some d \<and> subscript d ''balance'' = Inl e)))"
  shows "fst (check_balance (served_by http) asset) = Inr (JInt 0) \<and>
         fst (check_balance (served_by http) asset) =
           fst (check_balance
                  (served_by (\<lambda>req. Response 200 (Some (JObj [(''balance'', JInt 0)])))) asset)"
proof -
  have zero: "fst (check_balance
      (served_by (\<lambda>req. Response 200 (Some (JObj [(''balance'', JInt 0)])))) asset) =
      Inr (JInt 0)"
    by (simp add: check_balance_def check_balance_try_def served_by_def outcome_def
        raise_for_status_def io_defs)
  from assms have
    "served_by http (GET (balance_url @ ''/'' @ asset)) = Unreachable \<or>
     served_by http (GET (balance_url @ ''/'' @ asset)) = Refused \<or>
     served_by http (GET (balance_url @ ''/'' @ asset)) = Garbled \<or>
     (\<exists>d e. served_by http (GET (balance_url @ ''/'' @ asset)) = Parsed d \<and>
            subscript d ''balance'' = Inl e)"
  proof (elim disjE exE conjE)
    assume "http (GET (balance_url @ ''/'' @ asset)) = NoResponse"
    then show ?thesis by (simp add: served_by_def outcome_def)
  next
    fix status body
    assume r: "http (GET (balance_url @ ''/'' @ asset)) = Response status body"
      and "400 \<le> status"
    then show ?thesis by (simp add: served_by_def outcome_def raise_for_status_def)
  next
    fix status body
    assume r: "http (GET (balance_url @ ''/'' @ asset)) = Response status body"
      and "body = None"
    then show ?thesis
      by (cases "400 \<le> status") (simp_all add: served_by_def outcome_def raise_for_status_def)
  next
    fix status body d e
    assume r: "http (GET (balance_url @ ''/'' @ asset)) = Response status body"
      and "body = Some d" and "subscript d ''balance'' = Inl e"
    then show ?thesis
      by (cases "400 \<le> status") (simp_all add: served_by_def outcome_def raise_for_status_def)
  qed
  then have "fst (check_balance (served_by http) asset) = Inr (JInt 0)"
    by (rule check_balance_failure)
  with zero show ?thesis by simp
qed

text \<open>
  Status 404 with a body that holds a balance of 9000, and status 200 with a body that
  has no field \<^verbatim>\<open>balance\<close>.
\<close>

theorem check_balance_failure_returns_zero_witness:
  "(400::nat) \<le> 404 \<and>
   fst (check_balance
     (served_by (\<lambda>req. Response 404 (Some (JObj [(''balance'', JInt 9000)])))) ''DAI'') =
     Inr (JInt 0) \<and>
   subscript (JObj [(''error'', JStr ''unknown asset'')]) ''balance'' =
     Inl (KeyError ''balance'') \<and>
   fst (check_balance
     (served_by (\<lambda>req. Response 200 (Some (JObj [(''error'', JStr ''unknown asset'')]))))
     ''DAI'') = Inr (JInt 0) \<and>
   fst (check_balance
     (served_by (\<lambda>req. Response 200 (Some (JObj [(''balance'', JInt 0)])))) ''DAI'') =
     Inr (JInt 0)"
  using check_balance_failure_returns_zero
      [of "\<lambda>req. Response 404 (Some (JObj [(''balance'', JInt 9000)]))" "''DAI''"]
    check_balance_failure_returns_zero
      [of "\<lambda>req. Response 200 (Some (JObj [(''error'', JStr ''unknown asset'')]))" "''DAI''"]
  by (simp add: check_balance_def check_balance_try_def served_by_def outcome_def
      raise_for_status_def io_defs)

text \<open>
  The status code 300 is not a 2xx code, yet \<^verbatim>\<open>raise_for_status\<close> does not raise for it:
  with the body \<^verbatim>\<open>{"balance": 9000}\<close>, \<open>check_balance\<close> returns 9000, not 0.
\<close>

theorem check_balance_non_2xx_counterexample:
  "\<not> ((200::nat) \<le> 300 \<and> (300::nat) < 300) \<and>
   raise_for_status 300 = Inr () \<and>
   fst (check_balance
     (served_by (\<lambda>req. Response 300 (Some (JObj [(''balance'', JInt 9000)]))))
     asset_to_deposit) = Inr (JInt 9000) \<and>
   JInt 9000 \<noteq> JInt 0"
  by (simp add: check_balance_def check_balance_try_def served_by_def outcome_def
      raise_for_status_def io_defs)

section \<open>A failed liquidity fetch\<close>

text \<open>
  Claim C5. Whenever the liquidity fetch fails (transport error, \<^verbatim>\<open>raise_for_status\<close>
  raising, or a body that cannot be decoded), \<open>get_liquidity\<close> returns \<^verbatim>\<open>None\<close>. Whenever
  \<open>get_liquidity\<close> returns \<^verbatim>\<open>None\<close>, the cycle of \<open>make_decision\<close> returns normally, issues
  neither a deposit nor a borrow and logs both "not enough" messages, whatever the
  service answers to the balance request.
\<close>

theorem null_liquidity_no_actions:
  "(srv (GET liquidity_url) = Unreachable \<or> srv (GET liquidity_url) = Refused \<or>
    srv (GET liquidity_url) = Garbled \<longrightarrow> fst (get_liquidity srv) = Inr JNull) \<and>
   (fst (get_liquidity srv) = Inr JNull \<longrightarrow>
      fst (make_decision srv) = Inr () \<and>
      actions (snd (make_decision srv)) = [] \<and>
      Logged INFO [Lit ''Not enough balance or liquidity to deposit.''] \<in>
        set (snd (make_decision srv)) \<and>
      Logged INFO [Lit ''Not enough collateral or liquidity to borrow.''] \<in>
        set (snd (make_decision srv)))"
  using get_liquidity_failure [of srv] make_decision_falsy [of srv JNull]
  by simp

text \<open>The liquidity request is refused while the balance is 9000.\<close>

theorem null_liquidity_no_actions_witness:
  "((example_server JNull (JInt 9000)) (GET liquidity_url := Refused)) (GET liquidity_url) =
     Refused \<and>
   fst (get_liquidity ((example_server JNull (JInt 9000)) (GET liquidity_url := Refused))) =
     Inr JNull \<and>
   fst (check_balance ((example_server JNull (JInt 9000)) (GET liquidity_url := Refused))
     asset_to_deposit) = Inr (JInt 9000) \<and>
   fst (make_decision ((example_server JNull (JInt 9000)) (GET liquidity_url := Refused))) =
     Inr () \<and>
   actions (snd (make_decision
     ((example_server JNull (JInt 9000)) (GET liquidity_url := Refused)))) = []"
  using null_liquidity_no_actions
      [of "(example_server JNull (JInt 9000)) (GET liquidity_url := Refused)"]
  by (simp add: check_balance_def check_balance_try_def example_server_def io_defs
      urls_distinct)

section \<open>A falsy liquidity\<close>

text \<open>
  Claim C8. An empty object, an empty array, 0, the empty string, \<^verbatim>\<open>false\<close> and 0.0 are
  falsy. Whenever \<open>get_liquidity\<close> returns a falsy value \<open>l\<close>, the cycle of
  \<open>make_decision\<close> returns normally and issues neither a deposit nor a borrow, whatever
  the balance is: the comparison with the balance is not even evaluated.
\<close>

theorem falsy_liquidity_no_actions:
  "\<not> truthy (JObj []) \<and> \<not> truthy (JArr []) \<and> \<not> truthy (JInt 0) \<and> \<not> truthy (JStr []) \<and>
   \<not> truthy (JBool False) \<and> \<not> truthy (JFloat (Finite 0)) \<and>
   (fst (get_liquidity srv) = Inr l \<and> \<not> truthy l \<longrightarrow>
      fst (make_decision srv) = Inr () \<and> actions (snd (make_decision srv)) = [])"
  using make_decision_falsy [of srv l] by simp

text \<open>The liquidity \<^verbatim>\<open>{}\<close>, which is not \<^verbatim>\<open>None\<close>, with the balance 9000.\<close>

theorem falsy_liquidity_no_actions_witness:
  "fst (get_liquidity (example_server (JObj []) (JInt 9000))) = Inr (JObj []) \<and>
   JObj [] \<noteq> JNull \<and> \<not> truthy (JObj []) \<and>
   fst (check_balance (example_server (JObj []) (JInt 9000)) asset_to_deposit) =
     Inr (JInt 9000) \<and>
   fst (make_decision (example_server (JObj []) (JInt 9000))) = Inr () \<and>
   actions (snd (make_decision (example_server (JObj []) (JInt 9000)))) = []"
  using falsy_liquidity_no_actions [of "example_server (JObj []) (JInt 9000)" "JObj []"]
  by (simp add: example_server_liquidity example_server_balance)

section \<open>A failed balance fetch closes both gates\<close>

text \<open>
  Claim C9. Whenever the balance fetch of a cycle fails, \<open>check_balance\<close> returns 0 and
  the cycle of \<open>make_decision\<close> returns normally and issues neither a deposit nor a
  borrow, whatever the liquidity is: both thresholds are strictly positive.
\<close>

theorem failed_balance_no_actions:
  assumes "srv (GET (balance_url @ ''/'' @ asset_to_deposit)) = Unreachable \<or>
           srv (GET (balance_url @ ''/'' @ asset_to_deposit)) = Refused \<or>
           srv (GET (balance_url @ ''/'' @ asset_to_deposit)) = Garbled \<or>
           (\<exists>d e. srv (GET (balance_url @ ''/'' @ asset_to_deposit)) = Parsed d \<and>
                  subscript d ''balance'' = Inl e)"
  shows "fst (check_balance srv asset_to_deposit) = Inr (JInt 0) \<and>
         fst (make_decision srv) = Inr () \<and>
         actions (snd (make_decision srv)) = [] \<and>
         0 < amount_to_deposit \<and> 0 < collateral_for_borrow"
proof -
  obtain l where l: "fst (get_liquidity srv) = Inr l"
    using get_liquidity_total [of srv] by auto
  have b: "fst (check_balance srv asset_to_deposit) = Inr (JInt 0)"
    using assms check_balance_failure [of srv asset_to_deposit] by simp
  have pos: "0 < amount_to_deposit" "0 < collateral_for_borrow"
    by (simp_all add: amount_to_deposit_def collateral_for_borrow_def)
  then have "ge_int (JInt 0) amount_to_deposit = Inr False"
    "ge_int (JInt 0) collateral_for_borrow = Inr False"
    by simp_all
  then show ?thesis
    using b pos by (simp add: make_decision_eq(1) [OF l b] make_decision_actions [OF l b])
qed

text \<open>The liquidity is \<^verbatim>\<open>true\<close> and the balance request meets a transport error.\<close>

theorem failed_balance_no_actions_witness:
  "((example_server (JBool True) JNull)
      (GET (balance_url @ ''/'' @ asset_to_deposit) := Unreachable))
      (GET (balance_url @ ''/'' @ asset_to_deposit)) = Unreachable \<and>
   fst (get_liquidity ((example_server (JBool True) JNull)
      (GET (balance_url @ ''/'' @ asset_to_deposit) := Unreachable))) = Inr (JBool True) \<and>
   truthy (JBool True) \<and>
   fst (check_balance ((example_server (JBool True) JNull)
      (GET (balance_url @ ''/'' @ asset_to_deposit) := Unreachable)) asset_to_deposit) =
     Inr (JInt 0) \<and>
   actions (snd (make_decision ((example_server (JBool True) JNull)
      (GET (balance_url @ ''/'' @ asset_to_deposit) := Unreachable)))) = []"
proof -
  have h: "((example_server (JBool True) JNull)
      (GET (balance_url @ ''/'' @ asset_to_deposit) := Unreachable))
      (GET (balance_url @ ''/'' @ asset_to_deposit)) = Unreachable"
    by simp
  have l: "fst (get_liquidity ((example_server (JBool True) JNull)
      (GET (balance_url @ ''/'' @ asset_to_deposit) := Unreachable))) = Inr (JBool True)"
    using urls_distinct(7) [of asset_to_deposit]
    by (simp add: get_liquidity_def get_liquidity_try_def example_server_def io_defs)
  from failed_balance_no_actions [of "(example_server (JBool True) JNull)
      (GET (balance_url @ ''/'' @ asset_to_deposit) := Unreachable)"] h l
  show ?thesis by simp
qed

section \<open>Failed deposit and borrow requests\<close>

lemma deposit_assets_error_log:
  assumes "srv (POST deposit_url (deposit_payload k a s)) = Unreachable \<or>
           srv (POST deposit_url (deposit_payload k a s)) = Refused \<or>
           srv (POST deposit_url (deposit_payload k a s)) = Garbled \<or>
           (\<exists>d. srv (POST deposit_url (deposit_payload k a s)) = Parsed d \<and>
                subscript d ''status'' \<noteq> Inr (JStr ''success''))"
  shows "length (error_logs (snd (deposit_assets srv k a s))) = 1"
proof (cases "srv (POST deposit_url (deposit_payload k a s))")
  case (Parsed d)
  with assms have "subscript d ''status'' \<noteq> Inr (JStr ''success'')" by simp
  then show ?thesis
    by (cases "subscript d ''status''"; cases "subscript d ''message''")
       (simp_all add: Parsed deposit_assets_def deposit_assets_try_def io_defs error_logs_def)
qed (simp_all add: deposit_assets_def deposit_assets_try_def io_defs error_logs_def)

lemma borrow_assets_error_log:
  assumes "srv (POST borrow_url (borrow_payload k a c s d)) = Unreachable \<or>
           srv (POST borrow_url (borrow_payload k a c s d)) = Refused \<or>
           srv (POST borrow_url (borrow_payload k a c s d)) = Garbled \<or>
           (\<exists>x. srv (POST borrow_url (borrow_payload k a c s d)) = Parsed x \<and>
                subscript x ''status'' \<noteq> Inr (JStr ''success''))"
  shows "length (error_logs (snd (borrow_assets srv k a c s d))) = 1"
proof (cases "srv (POST borrow_url (borrow_payload k a c s d))")
  case (Parsed x)
  with assms have "subscript x ''status'' \<noteq> Inr (JStr ''success'')" by simp
  then show ?thesis
    by (cases "subscript x ''status''"; cases "subscript x ''message''")
       (simp_all add: Parsed borrow_assets_def borrow_assets_try_def io_defs error_logs_def)
qed (simp_all add: borrow_assets_def borrow_assets_try_def io_defs error_logs_def)

text \<open>
  Claim C6. \<open>deposit_assets\<close> and \<open>borrow_assets\<close> always return normally (\<open>Inr\<close>: no
  exception reaches the caller) after sending exactly one request (no retry). When the
  request fails (transport error, \<^verbatim>\<open>raise_for_status\<close> raising, a body that cannot be
  decoded) or the decoded body has no field \<^verbatim>\<open>status\<close> equal to \<^verbatim>\<open>"success"\<close>, exactly
  one error is logged.
\<close>

theorem failures_swallowed:
  "fst (deposit_assets srv k a s) = Inr () \<and>
   requests (snd (deposit_assets srv k a s)) = [POST deposit_url (deposit_payload k a s)] \<and>
   (srv (POST deposit_url (deposit_payload k a s)) = Unreachable \<or>
    srv (POST deposit_url (deposit_payload k a s)) = Refused \<or>
    srv (POST deposit_url (deposit_payload k a s)) = Garbled \<or>
    (\<exists>d. srv (POST deposit_url (deposit_payload k a s)) = Parsed d \<and>
         subscript d ''status'' \<noteq> Inr (JStr ''success'')) \<longrightarrow>
    length (error_logs (snd (deposit_assets srv k a s))) = 1) \<and>
   fst (borrow_assets srv k a c s' n) = Inr () \<and>
   requests (snd (borrow_assets srv k a c s' n)) =
     [POST borrow_url (borrow_payload k a c s' n)] \<and>
   (srv (POST borrow_url (borrow_payload k a c s' n)) = Unreachable \<or>
    srv (POST borrow_url (borrow_payload k a c s' n)) = Refused \<or>
    srv (POST borrow_url (borrow_payload k a c s' n)) = Garbled \<or>
    (\<exists>d. srv (POST borrow_url (borrow_payload k a c s' n)) = Parsed d \<and>
         subscript d ''status'' \<noteq> Inr (JStr ''success'')) \<longrightarrow>
    length (error_logs (snd (borrow_assets srv k a c s' n))) = 1)"
proof -
  obtain t where "deposit_assets srv k a s = (Inr (), t)"
    "requests t = [POST deposit_url (deposit_payload k a s)]"
    using deposit_assets_total by blast
  moreover obtain u where "borrow_assets srv k a c s' n = (Inr (), u)"
    "requests u = [POST borrow_url (borrow_payload k a c s' n)]"
    using borrow_assets_total by blast
  ultimately show ?thesis
    using deposit_assets_error_log [of srv k a s] borrow_assets_error_log [of srv k a c s' n]
    by simp
qed

text \<open>
  A deposit answered with the status \<^verbatim>\<open>"failed"\<close> and a message, and a borrow that is
  refused.
\<close>

theorem failures_swallowed_witness:
  "subscript (JObj [(''status'', JStr ''failed''), (''message'', JStr ''no funds'')]) ''status''
     \<noteq> Inr (JStr ''success'') \<and>
   deposit_assets
     (\<lambda>req. Parsed (JObj [(''status'', JStr ''failed''), (''message'', JStr ''no funds'')]))
     ''key'' 5000 ''DAI'' =
     (Inr (),
      [Sent (POST deposit_url (deposit_payload ''key'' 5000 ''DAI'')),
       Logged ERROR [Lit ''Error depositing assets: '', Val (JStr ''no funds'')]]) \<and>
   length (error_logs (snd (deposit_assets
     (\<lambda>req. Parsed (JObj [(''status'', JStr ''failed''), (''message'', JStr ''no funds'')]))
     ''key'' 5000 ''DAI''))) = 1 \<and>
   length (error_logs (snd (borrow_assets (\<lambda>req. Refused) ''key'' 1000 2000 ''USDT'' 30))) = 1"
  using failures_swallowed
      [of "\<lambda>req. Parsed (JObj [(''status'', JStr ''failed''), (''message'', JStr ''no funds'')])"
        "''key''" 5000 "''DAI''"]
    failures_swallowed [of "\<lambda>req. Refused" "''key''" 1000 _ 2000 "''USDT''" 30]
  by (simp add: deposit_assets_def deposit_assets_try_def io_defs)

section \<open>The polling loop\<close>

text \<open>
  As long as no cycle raises, the loop never ends: whatever the fuel, it is still running
  when the fuel is used up, and its trace is one complete cycle of \<open>make_decision\<close>
  followed by one sleep of 60, cycle after cycle.
\<close>

lemma polling_loop_runs:
  assumes "\<forall>i. fst (make_decision (srvs i)) = Inr ()"
  shows "polling_loop fuel srvs k =
           (None, concat (map (\<lambda>i. snd (make_decision (srvs i)) @ [Slept 60]) [k..<k + fuel]))"
proof (induction fuel arbitrary: k)
  case 0
  show ?case by simp
next
  case (Suc fuel)
  obtain t where t: "make_decision (srvs k) = (Inr (), t)"
    using assms by (cases "make_decision (srvs k)") (auto dest: spec [of _ k])
  have "[k..<k + Suc fuel] = k # [Suc k..<Suc k + fuel]"
    by (simp add: upt_conv_Cons)
  then show ?case
    by (simp add: Suc.IH [of "Suc k"] t io_bind_def sleep_def)
qed

text \<open>A cycle raises exactly when the liquidity is truthy and the balance is not a number.\<close>

lemma make_decision_raises_iff:
  assumes "fst (get_liquidity srv) = Inr l"
    and "fst (check_balance srv asset_to_deposit) = Inr b"
  shows "fst (make_decision srv) = Inl e \<longleftrightarrow>
           e = TypeError \<and> truthy l \<and> ge_int b amount_to_deposit = Inl TypeError"
  by (auto simp add: make_decision_eq(1) [OF assms])

text \<open>
  Claim C7 says that the polling loop runs forever. It does not when the service answers
  the liquidity request with a truthy value and the balance request with a balance that
  is not a number, here the string \<^verbatim>\<open>"5000"\<close>: the comparison in \<open>make_decision\<close> raises
  \<^verbatim>\<open>TypeError\<close>, nothing catches it, and the exception leaves the loop during the first
  cycle, before any sleep and whatever the fuel.
\<close>

theorem bot_exits_on_non_numeric_balance:
  "aave_crypto_bot (Suc fuel)
     (\<lambda>k. example_server (JObj [(''available'', JInt 1)]) (JStr ''5000'')) =
     (Some TypeError,
      [Logged INFO [Lit ''Starting the Aave crypto bot on Avalanche...''],
       Sent (GET liquidity_url),
       Logged INFO [Lit ''Current liquidity data:''],
       Logged INFO [Val (JObj [(''available'', JInt 1)])],
       Sent (GET (balance_url @ ''/'' @ asset_to_deposit)),
       Logged INFO [Lit ''Available '', Lit asset_to_deposit, Lit '' balance: '',
         Val (JStr ''5000'')]])"
proof -
  have "make_decision (example_server (JObj [(''available'', JInt 1)]) (JStr ''5000'')) =
     (Inl TypeError,
      [Sent (GET liquidity_url),
       Logged INFO [Lit ''Current liquidity data:''],
       Logged INFO [Val (JObj [(''available'', JInt 1)])],
       Sent (GET (balance_url @ ''/'' @ asset_to_deposit)),
       Logged INFO [Lit ''Available '', Lit asset_to_deposit, Lit '' balance: '',
         Val (JStr ''5000'')]])"
    by (simp add: make_decision_def get_liquidity_def get_liquidity_try_def check_balance_def
        check_balance_try_def deposit_step_def and_ge_def example_server_def io_defs
        urls_distinct)
  then show ?thesis
    by (simp add: aave_crypto_bot_def io_bind_def)
qed

end
